theory Spec2Isabelle
  imports Complex_Main "HOL-Library.Sublist" "HOL-Library.Word"
begin

section \<open>Contract analyser: a shallow embedding of app.py\<close>

text \<open>
  The application is one Python script: a size check on an uploaded file, text
  extraction by MIME type, one call to a generative model, tolerant parsing of the reply
  and a presenter. Python \<open>str\<close> values are modelled as \<open>string\<close>, a character outside
  ASCII being written as its UTF-8 code units; the file content is a list of bytes.
  Library functions the script calls but does not define (the model client,
  \<open>json.loads\<close>, \<open>PdfReader\<close>, \<open>Document\<close>, \<open>bytes.decode\<close>, \<open>repr\<close>) are fields of
  a record \<open>world\<close>, so every theorem holds for whatever these functions compute.
\<close>

subsection \<open>Values, exceptions and effects\<close>

type_synonym bytes = "8 word list"

text \<open>An exception caught by \<open>except Exception as e\<close>: its class and \<open>str(e)\<close>.\<close>

datatype py_exception = PyException (exc_class: string) (exc_str: string)

text \<open>
  What \<open>json.loads\<close> returns. A float is a finite rational, an infinity or NaN (the
  decoder accepts \<open>Infinity\<close> and \<open>NaN\<close>); a dict is an association list with distinct
  keys, read with \<open>map_of\<close>.
\<close>

datatype py_float = Finite rat | PosInf | NegInf | NaN

datatype json =
    JNull
  | JBool bool
  | JInt int
  | JFloat py_float
  | JString string
  | JArray "json list"
  | JObject "(string \<times> json) list"

text \<open>A page of a parsed PDF is what its \<open>extract_text()\<close> gives: an exception, \<open>None\<close> or a string.\<close>

datatype page = Page (extract_text: "py_exception + string option")

datatype docx_paragraph = Paragraph (paragraph_text: string)

text \<open>
  The trace of one interaction: the Streamlit calls that put something on the page, in
  order, and the calls that leave the script (extraction libraries, the model).
  Layout containers (\<open>st.columns\<close>, \<open>with col:\<close>) put nothing on the page themselves and
  are not recorded.
\<close>

datatype event =
    StError string
  | StWarning string
  | StInfo string
  | StSuccess string
  | StSpinner string
  | StMarkdown string
  | StHeader string
  | StSubheader string
  | StCheckbox string bool
  | CallPdfReader bytes
  | CallDocument bytes
  | CallDecode bytes
  | CallGenerateContent string

record world =
  generate_content :: "string \<Rightarrow> py_exception + string"
  json_loads :: "string \<Rightarrow> py_exception + json"
  PdfReader :: "bytes \<Rightarrow> py_exception + page list"
  Document :: "bytes \<Rightarrow> py_exception + docx_paragraph list"
  decode_utf8 :: "bytes \<Rightarrow> py_exception + string"
  py_repr :: "json \<Rightarrow> string"

text \<open>
  \<open>generate_content w prompt\<close> stands for \<open>model.generate_content(prompt)\<close> followed by
  reading \<open>response.text\<close>: either may raise.
\<close>

record uploaded_file =
  upload_type :: string
  upload_size :: nat
  upload_value :: bytes

text \<open>
  A block of statements that emits events and then either raises or returns a value.
  The events emitted before a raise stay on the page.
\<close>

type_synonym 'a io = "event list \<times> (py_exception + 'a)"

definition io_bind :: "'a io \<Rightarrow> ('a \<Rightarrow> 'b io) \<Rightarrow> 'b io" where
  "io_bind m f =
     (case m of
        (evs, Inl e) \<Rightarrow> (evs, Inl e)
      | (evs, Inr a) \<Rightarrow> (case f a of (evs', r) \<Rightarrow> (evs @ evs', r)))"

definition io_then :: "'a io \<Rightarrow> 'b io \<Rightarrow> 'b io" where
  "io_then m n = io_bind m (\<lambda>_. n)"

definition emit :: "event \<Rightarrow> unit io" where
  "emit ev = ([ev], Inr ())"

definition emits :: "event list \<Rightarrow> unit io" where
  "emits evs = (evs, Inr ())"

definition py_call :: "py_exception + 'a \<Rightarrow> 'a io" where
  "py_call r = ([], r)"

subsection \<open>Python built-ins the script relies on\<close>

text \<open>\<open>bool(v)\<close> for a decoded JSON value, as tested by \<open>if analysis_data:\<close>.\<close>

fun truthy :: "json \<Rightarrow> bool" where
  "truthy JNull = False"
| "truthy (JBool b) = b"
| "truthy (JInt i) = (i \<noteq> 0)"
| "truthy (JFloat f) = (f \<noteq> Finite 0)"
| "truthy (JString s) = (s \<noteq> [])"
| "truthy (JArray xs) = (xs \<noteq> [])"
| "truthy (JObject kvs) = (kvs \<noteq> [])"

fun py_type_name :: "json \<Rightarrow> string" where
  "py_type_name JNull = ''NoneType''"
| "py_type_name (JBool b) = ''bool''"
| "py_type_name (JInt i) = ''int''"
| "py_type_name (JFloat f) = ''float''"
| "py_type_name (JString s) = ''str''"
| "py_type_name (JArray xs) = ''list''"
| "py_type_name (JObject kvs) = ''dict''"

text \<open>\<open>obj.get(key, default)\<close>: only a dict has the method.\<close>

fun py_get :: "json \<Rightarrow> string \<Rightarrow> json \<Rightarrow> py_exception + json" where
  "py_get (JObject kvs) key dflt =
     Inr (case map_of kvs key of Some v \<Rightarrow> v | None \<Rightarrow> dflt)"
| "py_get v key dflt =
     Inl (PyException ''AttributeError''
            ([CHR 0x27] @ py_type_name v @ [CHR 0x27] @ '' object has no attribute '' @
             [CHR 0x27] @ ''get'' @ [CHR 0x27]))"

text \<open>\<open>{value}\<close> inside an f-string: a \<open>str\<close> is inserted as it is, anything else through \<open>repr\<close>.\<close>

fun py_str :: "world \<Rightarrow> json \<Rightarrow> string" where
  "py_str w (JString s) = s"
| "py_str w v = py_repr w v"

subsection \<open>The response parser: \<open>re.search(r'```json\n(.*)\n```', text, re.DOTALL)\<close>\<close>

definition fence_open :: string where
  \<open>fence_open = ''```json\<newline>''\<close>

definition fence_close :: string where
  \<open>fence_close = ''\<newline>```''\<close>

text \<open>
  The group \<open>(.*)\<close> is greedy and, with \<open>re.DOTALL\<close>, matches every character: the
  matcher tries the longest candidate first and gives characters back one at a time
  until the closing \<open>\n```\<close> follows. \<open>greedy_group k r\<close> tries the lengths \<open>k, k-1, ..., 0\<close>.
\<close>

fun greedy_group :: "nat \<Rightarrow> string \<Rightarrow> string option" where
  "greedy_group 0 r = (if prefix fence_close r then Some [] else None)"
| "greedy_group (Suc k) r =
     (if prefix fence_close (drop (Suc k) r) then Some (take (Suc k) r)
      else greedy_group k r)"

text \<open>The pattern anchored at the start of \<open>s\<close>; the result is \<open>group(1)\<close>.\<close>

definition match_here :: "string \<Rightarrow> string option" where
  "match_here s =
     (if prefix fence_open s
      then (let r = drop (length fence_open) s in greedy_group (length r) r)
      else None)"

text \<open>\<open>re.search\<close> tries every start position from the left and keeps the first match.\<close>

fun re_search :: "string \<Rightarrow> string option" where
  "re_search [] = match_here []"
| "re_search (c # cs) =
     (case match_here (c # cs) of Some g \<Rightarrow> Some g | None \<Rightarrow> re_search cs)"

text \<open>Lines 69 to 73: the fenced content when the pattern matches, the whole reply otherwise.\<close>

definition select_json_str :: "string \<Rightarrow> string" where
  "select_json_str response_text =
     (case re_search response_text of Some g \<Rightarrow> g | None \<Rightarrow> response_text)"

subsection \<open>\<open>get_gemini_response\<close>\<close>

definition prompt_head :: string where
  \<open>prompt_head =
     ''\<newline>'' @
     ''    You are an expert contract analyzer. Your task is to analyze the following contract text and extract key insights.\<newline>'' @
     ''    \<newline>'' @
     ''    The output should be a single JSON object with the following structure:\<newline>'' @
     ''    {\<newline>'' @
     ''      "Contract Type": "The type of agreement (e.g., Service Agreement, Lease, NDA).",\<newline>'' @
     ''      "Address": "The address mentioned in the contract.",\<newline>'' @
     ''      "Entry Date": "The date the contract was entered into.",\<newline>'' @
     ''      "Contract Party": "The names of the parties involved in the contract.",\<newline>'' @
     ''      "Termination Date": "Any date or clause specifying when the contract can be terminated.",\<newline>'' @
     ''      "End of Contract": "The specific end date or duration of the contract.",\<newline>'' @
     ''      "Executive Summary": "A concise summary of the contract's purpose and key terms.",\<newline>'' @
     ''      "Scope of Service": "A description of the services or work to be performed.",\<newline>'' @
     ''      "Responsibilities for Deliverables": "A summary of each party's responsibilities and the deliverables they are accountable for.",\<newline>'' @
     ''      "Payment Schedule": "Details on how and when payments will be made.",\<newline>'' @
     ''      "Tax Compliance": "Any clauses related to tax responsibilities and compliance.",\<newline>'' @
     ''      "Important Dates and Deadlines": "A list of all significant dates and deadlines mentioned in the contract.",\<newline>'' @
     ''      "Termination Clauses": "Conditions under which the contract can be terminated by either party.",\<newline>'' @
     ''      "Confidentiality and Non-Compete Clause": "Details of any confidentiality agreements and non-compete restrictions.",\<newline>'' @
     ''      "Clauses Presence": {\<newline>'' @
     ''        "Commercial": {\<newline>'' @
     ''          "Payment Terms": "Yes/No",\<newline>'' @
     ''          "IP": "Yes/No",\<newline>'' @
     ''          "Delivery Time": "Yes/No",\<newline>'' @
     ''          "Warranty": "Yes/No"\<newline>'' @
     ''        },\<newline>'' @
     ''        "Legal": {\<newline>'' @
     ''          "Indemnification": "Yes/No",\<newline>'' @
     ''          "Termination": "Yes/No",\<newline>'' @
     ''          "Confidentiality": "Yes/No",\<newline>'' @
     ''          "Limitation of Liability": "Yes/No"\<newline>'' @
     ''        }\<newline>'' @
     ''      }\<newline>'' @
     ''    }\<newline>'' @
     ''    \<newline>'' @
     ''    Analyze the following contract text:\<newline>'' @
     ''    ---\<newline>'' @
     ''    ''\<close>

definition prompt_tail :: string where
  \<open>prompt_tail = ''\<newline>    ---\<newline>    ''\<close>

definition build_prompt :: "string \<Rightarrow> string" where
  "build_prompt input_text = prompt_head @ input_text @ prompt_tail"

text \<open>The body of the \<open>try\<close> (lines 67 to 75).\<close>

definition get_gemini_response_try :: "world \<Rightarrow> string \<Rightarrow> json io" where
  "get_gemini_response_try w input_text =
     (let prompt = build_prompt input_text in
      io_then (emit (CallGenerateContent prompt))
     (io_bind (py_call (generate_content w prompt)) (\<lambda>response_text.
      py_call (json_loads w (select_json_str response_text)))))"

text \<open>
  The handler (lines 77 to 79) reports the exception and returns \<open>None\<close>, the same Python
  value as a decoded \<open>null\<close>. The function itself never raises.
\<close>

definition get_gemini_response :: "world \<Rightarrow> string \<Rightarrow> event list \<times> json" where
  "get_gemini_response w input_text =
     (case get_gemini_response_try w input_text of
        (evs, Inr data) \<Rightarrow> (evs, data)
      | (evs, Inl e) \<Rightarrow> (evs @ [StError (''An error occurred: '' @ exc_str e)], JNull))"

subsection \<open>Text extraction\<close>

text \<open>\<open>x or ""\<close> for what \<open>page.extract_text()\<close> returns.\<close>

definition py_or_empty :: "string option \<Rightarrow> string" where
  "py_or_empty r = (case r of None \<Rightarrow> [] | Some s \<Rightarrow> (if s \<noteq> [] then s else []))"

text \<open>The loop of \<open>extract_text_from_pdf\<close>, \<open>acc\<close> being the variable \<open>text\<close>.\<close>

fun pdf_pages_loop :: "string \<Rightarrow> page list \<Rightarrow> py_exception + string" where
  "pdf_pages_loop acc [] = Inr acc"
| "pdf_pages_loop acc (p # ps) =
     (case extract_text p of
        Inl e \<Rightarrow> Inl e
      | Inr r \<Rightarrow> pdf_pages_loop (acc @ py_or_empty r) ps)"

definition extract_text_from_pdf :: "world \<Rightarrow> bytes \<Rightarrow> string io" where
  "extract_text_from_pdf w file_obj =
     io_then (emit (CallPdfReader file_obj))
    (io_bind (py_call (PdfReader w file_obj)) (\<lambda>pages.
     py_call (pdf_pages_loop [] pages)))"

text \<open>The loop of \<open>extract_text_from_docx\<close>.\<close>

fun docx_paragraphs_loop :: "string \<Rightarrow> docx_paragraph list \<Rightarrow> string" where
  "docx_paragraphs_loop acc [] = acc"
| "docx_paragraphs_loop acc (p # ps) =
     docx_paragraphs_loop (acc @ paragraph_text p @ ''\<newline>'') ps"

definition extract_text_from_docx :: "world \<Rightarrow> bytes \<Rightarrow> string io" where
  "extract_text_from_docx w file_obj =
     io_then (emit (CallDocument file_obj))
    (io_bind (py_call (Document w file_obj)) (\<lambda>paragraphs.
     py_call (Inr (docx_paragraphs_loop [] paragraphs))))"

text \<open>
  Lines 115 to 127: the dispatch on the declared MIME type. With none of the three
  types \<open>contract_text\<close> keeps its initial value, the empty string.
\<close>

definition extract_by_type :: "world \<Rightarrow> uploaded_file \<Rightarrow> bytes \<Rightarrow> string io" where
  "extract_by_type w uploaded file_content =
     (if upload_type uploaded = ''application/pdf'' then
        io_then (emit (StInfo ''Extracting text from PDF...''))
                (extract_text_from_pdf w file_content)
      else if upload_type uploaded =
                ''application/vnd.openxmlformats-officedocument.wordprocessingml.document'' then
        io_then (emit (StInfo ''Extracting text from DOCX...''))
                (extract_text_from_docx w file_content)
      else if upload_type uploaded = ''text/plain'' then
        io_then (emits [StInfo ''Reading text from TXT...'', CallDecode file_content])
                (py_call (decode_utf8 w file_content))
      else ([], Inr []))"

subsection \<open>The presenter (lines 134 to 221)\<close>

definition custom_css :: string where
  \<open>custom_css =
     ''\<newline>'' @
     ''                            <style>\<newline>'' @
     ''                            .custom-box {\<newline>'' @
     ''                                border-radius: 5px;\<newline>'' @
     ''                                padding: 10px;\<newline>'' @
     ''                                margin-bottom: 10px;\<newline>'' @
     ''                                border: 1px solid #ddd;\<newline>'' @
     ''                            }\<newline>'' @
     ''                            .box-red { background-color: #ffe5e5; }\<newline>'' @
     ''                            .box-green { background-color: #e5ffe5; }\<newline>'' @
     ''                            .box-blue { background-color: #e5e5ff; }\<newline>'' @
     ''                            .box-purple { background-color: #f2e5ff; }\<newline>'' @
     ''                            .box-orange { background-color: #fff2e5; }\<newline>'' @
     ''                            .box-pink { background-color: #ffe5f2; }\<newline>'' @
     ''                            .box-yellow { background-color: #ffffcc; }\<newline>'' @
     ''                            </style>\<newline>'' @
     ''                            ''\<close>

text \<open>The dict \<open>box_colors\<close>, in insertion order, which is the order of \<open>.items()\<close>.\<close>

definition box_colors :: "(string \<times> string) list" where
  "box_colors =
     [(''Contract Type'', ''box-red''),
      (''Address'', ''box-green''),
      (''Entry Date'', ''box-blue''),
      (''Contract Party'', ''box-purple''),
      (''Termination Date'', ''box-orange''),
      (''End of Contract'', ''box-pink'')]"

definition label_box :: "string \<Rightarrow> string \<Rightarrow> string" where
  \<open>label_box color_class key =
     ''<div class="custom-box '' @ color_class @ ''"><b>'' @ key @ ''</b></div>''\<close>

definition value_box :: "string \<Rightarrow> string \<Rightarrow> string" where
  \<open>value_box color_class val =
     ''<div class="custom-box '' @ color_class @ ''">'' @ val @ ''</div>''\<close>

text \<open>The loop over \<open>box_colors.items()\<close> (lines 168 to 175).\<close>

fun headline_loop :: "world \<Rightarrow> json \<Rightarrow> (string \<times> string) list \<Rightarrow> unit io" where
  "headline_loop w analysis_data [] = ([], Inr ())"
| "headline_loop w analysis_data ((key, color_class) # rest) =
     io_bind (py_call (py_get analysis_data key (JString ''N/A''))) (\<lambda>val.
     io_then (emits [StMarkdown (label_box color_class key),
                     StMarkdown (value_box color_class (py_str w val))])
             (headline_loop w analysis_data rest))"

text \<open>One of the eight \<open>st.info\<close> statements of lines 182 to 189.\<close>

definition narrative :: "world \<Rightarrow> json \<Rightarrow> string \<Rightarrow> unit io" where
  "narrative w analysis_data key =
     io_bind (py_call (py_get analysis_data key (JString ''N/A''))) (\<lambda>val.
     emit (StInfo (''**'' @ key @ '':** '' @ py_str w val)))"

text \<open>One \<open>st.checkbox(label, value=d.get(key, "No") == "Yes", disabled=True)\<close>.\<close>

definition checkbox :: "string \<Rightarrow> json \<Rightarrow> string \<Rightarrow> unit io" where
  "checkbox label d key =
     io_bind (py_call (py_get d key (JString ''No''))) (\<lambda>val.
     emit (StCheckbox label (val = JString ''Yes'')))"

text \<open>Statements one after the other; a raise skips the rest.\<close>

fun io_seq :: "unit io list \<Rightarrow> unit io" where
  "io_seq [] = ([], Inr ())"
| "io_seq (m # ms) = io_then m (io_seq ms)"

definition present :: "world \<Rightarrow> json \<Rightarrow> unit io" where
  "present w analysis_data =
     io_then (io_seq
       [emit (StSuccess (''Analysis Complete! '' @ [CHR 0xF0, CHR 0x9F, CHR 0x8E, CHR 0x89])),
        emit (StMarkdown custom_css),
        emit (StHeader ''Key Contract Details''),
        headline_loop w analysis_data box_colors,
        emit (StMarkdown ''---''),
        emit (StHeader ''Full Analysis''),
        emit (StSubheader ''General Insights''),
        narrative w analysis_data ''Executive Summary'',
        narrative w analysis_data ''Scope of Service'',
        narrative w analysis_data ''Responsibilities for Deliverables'',
        narrative w analysis_data ''Payment Schedule'',
        narrative w analysis_data ''Tax Compliance'',
        narrative w analysis_data ''Important Dates and Deadlines'',
        narrative w analysis_data ''Termination Clauses'',
        narrative w analysis_data ''Confidentiality and Non-Compete Clause'',
        emit (StMarkdown ''---''),
        emit (StSubheader (''Clause Presence Check '' @ [CHR 0xE2, CHR 0x9C, CHR 0x85]))])
    (io_bind (py_call (py_get analysis_data ''Clauses Presence'' (JObject []))) (\<lambda>clauses.
     io_then (emit (StMarkdown ''##### Commercial Clauses''))
    (io_bind (py_call (py_get clauses ''Commercial'' (JObject []))) (\<lambda>commercial_clauses.
     io_then (io_seq
       [checkbox ''Payment Terms'' commercial_clauses ''Payment Terms'',
        checkbox ''IP (Intellectual Property)'' commercial_clauses ''IP'',
        checkbox ''Delivery Time'' commercial_clauses ''Delivery Time'',
        checkbox ''Warranty'' commercial_clauses ''Warranty'',
        emit (StMarkdown ''---''),
        emit (StMarkdown ''##### Legal Clauses'')])
    (io_bind (py_call (py_get clauses ''Legal'' (JObject []))) (\<lambda>legal_clauses.
     io_seq
       [checkbox ''Indemnification'' legal_clauses ''Indemnification'',
        checkbox ''Termination'' legal_clauses ''Termination'',
        checkbox ''Confidentiality'' legal_clauses ''Confidentiality'',
        checkbox ''Limitation of Liability'' legal_clauses ''Limitation of Liability'']))))))"

subsection \<open>The button handler (lines 107 to 231)\<close>

definition size_error :: string where
  "size_error = ''File size exceeds the 200 MB limit. Please upload a smaller file.''"

definition analysis_failed_error :: string where
  "analysis_failed_error =
     ''Could not analyze the contract. Please check the contract text and your API key.''"

definition no_text_error :: string where
  "no_text_error =
     ''Could not extract any text from the uploaded file. Please ensure the file is not corrupted.''"

text \<open>The body of the \<open>try\<close> (lines 119 to 226).\<close>

definition process_try :: "world \<Rightarrow> uploaded_file \<Rightarrow> bytes \<Rightarrow> unit io" where
  "process_try w uploaded file_content =
     io_bind (extract_by_type w uploaded file_content) (\<lambda>contract_text.
     if contract_text \<noteq> [] then
       io_then (emit (StSpinner (''Analyzing contract... Please wait.'' @
                                 [CHR 0xE2, CHR 0x8F, CHR 0xB3])))
      (io_bind (case get_gemini_response w contract_text of (evs, data) \<Rightarrow> (evs, Inr data))
         (\<lambda>analysis_data.
            if truthy analysis_data then present w analysis_data
            else emit (StError analysis_failed_error)))
     else emit (StError no_text_error))"

text \<open>What a click on "Analyze Contract" puts on the page and calls, in order.\<close>

definition analyze_contract :: "world \<Rightarrow> uploaded_file option \<Rightarrow> event list" where
  "analyze_contract w uploaded_file =
     (case uploaded_file of
        None \<Rightarrow> [StWarning ''Please upload a contract file to analyze.'']
      | Some uploaded \<Rightarrow>
          if upload_size uploaded > 200 * 1024 * 1024 then [StError size_error]
          else (case process_try w uploaded (upload_value uploaded) of
                  (evs, Inr u) \<Rightarrow> evs
                | (evs, Inl e) \<Rightarrow>
                    evs @ [StError (''An error occurred during file processing: '' @ exc_str e)]))"

subsection \<open>The requested schema\<close>

text \<open>
  The keys the presenter reads besides the six of \<open>box_colors\<close>: the eight narrative
  fields, and the eight clause flags as (category, key, checkbox label).
\<close>

definition narrative_keys :: "string list" where
  "narrative_keys =
     [''Executive Summary'', ''Scope of Service'', ''Responsibilities for Deliverables'',
      ''Payment Schedule'', ''Tax Compliance'', ''Important Dates and Deadlines'',
      ''Termination Clauses'', ''Confidentiality and Non-Compete Clause'']"

definition clause_flags :: "(string \<times> string \<times> string) list" where
  "clause_flags =
     [(''Commercial'', ''Payment Terms'', ''Payment Terms''),
      (''Commercial'', ''IP'', ''IP (Intellectual Property)''),
      (''Commercial'', ''Delivery Time'', ''Delivery Time''),
      (''Commercial'', ''Warranty'', ''Warranty''),
      (''Legal'', ''Indemnification'', ''Indemnification''),
      (''Legal'', ''Termination'', ''Termination''),
      (''Legal'', ''Confidentiality'', ''Confidentiality''),
      (''Legal'', ''Limitation of Liability'', ''Limitation of Liability'')]"

text \<open>
  An analysis result keeps the shape of the schema when the nested entries it does have
  are mappings: "Clauses Presence", and inside it "Commercial" and "Legal".
\<close>

definition category_ok :: "(string \<times> json) list \<Rightarrow> string \<Rightarrow> bool" where
  "category_ok cs cat =
     (case map_of cs cat of None \<Rightarrow> True | Some (JObject fs) \<Rightarrow> True | Some _ \<Rightarrow> False)"

definition nested_ok :: "(string \<times> json) list \<Rightarrow> bool" where
  "nested_ok kvs =
     (case map_of kvs ''Clauses Presence'' of
        None \<Rightarrow> True
      | Some (JObject cs) \<Rightarrow> category_ok cs ''Commercial'' \<and> category_ok cs ''Legal''
      | Some _ \<Rightarrow> False)"

text \<open>
  A clause flag is missing when "Clauses Presence" is absent, or its category is absent,
  or the key is absent from its category.
\<close>

definition flag_missing :: "(string \<times> json) list \<Rightarrow> string \<Rightarrow> string \<Rightarrow> bool" where
  "flag_missing kvs cat key =
     (case map_of kvs ''Clauses Presence'' of
        None \<Rightarrow> True
      | Some (JObject cs) \<Rightarrow>
          (case map_of cs cat of
             None \<Rightarrow> True
           | Some (JObject fs) \<Rightarrow> map_of fs key = None
           | Some _ \<Rightarrow> False)
      | Some _ \<Rightarrow> False)"

text \<open>Every event of a block satisfies \<open>P\<close>.\<close>

definition events_all :: "(event \<Rightarrow> bool) \<Rightarrow> 'a io \<Rightarrow> bool" where
  "events_all P m = list_all P (fst m)"

text \<open>The events that report an error, and the call of the model.\<close>

fun is_error :: "event \<Rightarrow> bool" where
  "is_error (StError m) = True"
| "is_error ev = False"

fun is_model_call :: "event \<Rightarrow> bool" where
  "is_model_call (CallGenerateContent p) = True"
| "is_model_call ev = False"

subsection \<open>A concrete world\<close>

text \<open>
  Stand-ins for the libraries, to run the script on concrete inputs: a JSON decoder that
  knows three texts and rejects every other text (with the message of a text that starts
  no value), a strict UTF-8 decoder (well-formed sequences only, no overlong forms, no
  surrogates, nothing above U+10FFFF; one fixed message), a PDF reader that rejects the
  empty file and otherwise yields three pages, the middle one without text, and a DOCX
  reader yielding two paragraphs.
\<close>

definition sample_loads :: "string \<Rightarrow> py_exception + json" where
  \<open>sample_loads s =
     (if s = ''{}'' then Inr (JObject [])
      else if s = ''null'' then Inr JNull
      else if s = ''{"Contract Type": "NDA"}''
        then Inr (JObject [(''Contract Type'', JString ''NDA'')])
      else Inl (PyException ''JSONDecodeError'' ''Expecting value: line 1 column 1 (char 0)''))\<close>

definition continuation :: "8 word \<Rightarrow> bool" where
  "continuation b = (0x80 \<le> b \<and> b \<le> 0xBF)"

fun utf8_valid :: "bytes \<Rightarrow> bool" where
  "utf8_valid [] = True"
| "utf8_valid (b0 # bs) =
     (if b0 \<le> 0x7F then utf8_valid bs
      else if 0xC2 \<le> b0 \<and> b0 \<le> 0xDF then
        (case bs of b1 # r \<Rightarrow> continuation b1 \<and> utf8_valid r | _ \<Rightarrow> False)
      else if 0xE0 \<le> b0 \<and> b0 \<le> 0xEF then
        (case bs of
           b1 # b2 # r \<Rightarrow>
             (if b0 = 0xE0 then 0xA0 else 0x80) \<le> b1 \<and>
             b1 \<le> (if b0 = 0xED then 0x9F else 0xBF) \<and>
             continuation b2 \<and> utf8_valid r
         | _ \<Rightarrow> False)
      else if 0xF0 \<le> b0 \<and> b0 \<le> 0xF4 then
        (case bs of
           b1 # b2 # b3 # r \<Rightarrow>
             (if b0 = 0xF0 then 0x90 else 0x80) \<le> b1 \<and>
             b1 \<le> (if b0 = 0xF4 then 0x8F else 0xBF) \<and>
             continuation b2 \<and> continuation b3 \<and> utf8_valid r
         | _ \<Rightarrow> False)
      else False)"

definition sample_decode :: "bytes \<Rightarrow> py_exception + string" where
  "sample_decode bs =
     (if utf8_valid bs then Inr (map (\<lambda>b. char_of (unat b)) bs)
      else Inl (PyException ''UnicodeDecodeError'' ''invalid utf-8''))"

definition sample_world :: "string \<Rightarrow> world" where
  "sample_world reply =
     \<lparr> generate_content = (\<lambda>prompt. Inr reply),
       json_loads = sample_loads,
       PdfReader = (\<lambda>bs. if bs = [] then Inl (PyException ''EmptyFileError'' ''Cannot read an empty file'')
                          else Inr [Page (Inr (Some ''Hello '')), Page (Inr None),
                                    Page (Inr (Some ''world''))]),
       Document = (\<lambda>bs. Inr [Paragraph ''First'', Paragraph ''Second'']),
       decode_utf8 = sample_decode,
       py_repr = (\<lambda>v. ''<value>'') \<rparr>"

section \<open>Properties\<close>

subsection \<open>Blocks of statements\<close>

lemma io_bind_Inr [simp]: "io_bind (evs, Inr a) f = (evs @ fst (f a), snd (f a))"
  by (simp add: io_bind_def split: prod.splits)

lemma io_bind_Inl [simp]: "io_bind (evs, Inl e) f = (evs, Inl e)"
  by (simp add: io_bind_def)

lemma io_then_Inr [simp]: "io_then (evs, Inr a) n = (evs @ fst n, snd n)"
  by (simp add: io_then_def)

lemma io_then_Inl [simp]: "io_then (evs, Inl e) n = (evs, Inl e)"
  by (simp add: io_then_def)

subsection \<open>The fence pattern\<close>

lemma length_fence_close: "length fence_close = 4"
  by (simp add: fence_close_def)

text \<open>
  Backtracking from any length between that of the body and that of the whole remainder
  stops exactly at the body: nothing shorter than the closing marker can hold it.
\<close>

lemma greedy_group_fenced:
  "length body \<le> k \<Longrightarrow> k \<le> length body + 4 \<Longrightarrow>
   greedy_group k (body @ fence_close) = Some body"
proof (induction k)
  case 0
  then show ?case by simp
next
  case (Suc k)
  show ?case
  proof (cases "length body = Suc k")
    case True
    then show ?thesis by simp
  next
    case False
    with Suc.prems have le: "length body \<le> k" by simp
    have short: "length (drop (Suc k) (body @ fence_close)) < length fence_close"
      using le by (simp add: length_fence_close)
    have "\<not> prefix fence_close (drop (Suc k) (body @ fence_close))"
      using short prefix_length_le by fastforce
    with Suc.IH le Suc.prems show ?thesis by simp
  qed
qed

lemma match_here_fenced:
  "match_here (fence_open @ body @ fence_close) = Some body"
  by (simp add: match_here_def Let_def greedy_group_fenced length_fence_close)

lemma re_search_fenced:
  "re_search (fence_open @ body @ fence_close) = Some body"
proof -
  have "fence_open @ body @ fence_close \<noteq> []" by (simp add: fence_open_def)
  then obtain c cs where eq: "fence_open @ body @ fence_close = c # cs"
    by (cases "fence_open @ body @ fence_close") auto
  have "re_search (c # cs) = Some body"
    using match_here_fenced[of body] eq by simp
  with eq show ?thesis by simp
qed

text \<open>
  The matcher finds nothing exactly when the text holds no opening marker followed,
  anywhere later, by a closing marker: the language of the regular expression.
\<close>

lemma greedy_group_None:
  "greedy_group k r = None \<longleftrightarrow> (\<forall>j\<le>k. \<not> prefix fence_close (drop j r))"
proof (induction k)
  case 0
  then show ?case by simp
next
  case (Suc k)
  then show ?case by (auto simp: le_Suc_eq)
qed

lemma has_close_iff:
  "(\<exists>j\<le>length r. prefix fence_close (drop j r)) \<longleftrightarrow> (\<exists>b p. r = b @ fence_close @ p)"
proof
  assume "\<exists>j\<le>length r. prefix fence_close (drop j r)"
  then obtain j p where "drop j r = fence_close @ p" by (auto simp: prefix_def)
  then have "r = take j r @ fence_close @ p" by (metis append_take_drop_id)
  then show "\<exists>b p. r = b @ fence_close @ p" by blast
next
  assume "\<exists>b p. r = b @ fence_close @ p"
  then obtain b p where "r = b @ fence_close @ p" by blast
  then have "length b \<le> length r \<and> prefix fence_close (drop (length b) r)" by simp
  then show "\<exists>j\<le>length r. prefix fence_close (drop j r)" by blast
qed

lemma match_here_None:
  "match_here s = None \<longleftrightarrow> \<not> (\<exists>b p. s = fence_open @ b @ fence_close @ p)"
proof -
  have "match_here s \<noteq> None \<longleftrightarrow> (\<exists>b p. s = fence_open @ b @ fence_close @ p)"
  proof
    assume m: "match_here s \<noteq> None"
    then have pre: "prefix fence_open s" by (auto simp: match_here_def split: if_splits)
    then obtain r where s: "s = fence_open @ r" by (auto simp: prefix_def)
    with m have "greedy_group (length r) r \<noteq> None" by (simp add: match_here_def Let_def)
    then have "\<exists>j\<le>length r. prefix fence_close (drop j r)" by (simp add: greedy_group_None)
    then obtain b p where "r = b @ fence_close @ p" using has_close_iff by blast
    with s show "\<exists>b p. s = fence_open @ b @ fence_close @ p" by blast
  next
    assume "\<exists>b p. s = fence_open @ b @ fence_close @ p"
    then obtain b p where s: "s = fence_open @ b @ fence_close @ p" by blast
    have "\<exists>j\<le>length (b @ fence_close @ p). prefix fence_close (drop j (b @ fence_close @ p))"
      using has_close_iff by blast
    then have "greedy_group (length (b @ fence_close @ p)) (b @ fence_close @ p) \<noteq> None"
      using greedy_group_None by blast
    with s show "match_here s \<noteq> None" by (simp add: match_here_def Let_def)
  qed
  then show ?thesis by blast
qed

lemma re_search_None:
  "re_search s = None \<longleftrightarrow> \<not> (\<exists>a b p. s = a @ fence_open @ b @ fence_close @ p)"
proof (induction s)
  case Nil
  show ?case by (simp add: match_here_None fence_open_def)
next
  case (Cons c cs)
  have "(\<exists>a b p. c # cs = a @ fence_open @ b @ fence_close @ p) \<longleftrightarrow>
        (\<exists>b p. c # cs = fence_open @ b @ fence_close @ p) \<or>
        (\<exists>a b p. cs = a @ fence_open @ b @ fence_close @ p)"
  proof
    assume "\<exists>a b p. c # cs = a @ fence_open @ b @ fence_close @ p"
    then obtain a b p where e: "c # cs = a @ fence_open @ b @ fence_close @ p" by blast
    show "(\<exists>b p. c # cs = fence_open @ b @ fence_close @ p) \<or>
        (\<exists>a b p. cs = a @ fence_open @ b @ fence_close @ p)"
    proof (cases a)
      case Nil
      with e show ?thesis by auto
    next
      case (Cons x a')
      with e have "cs = a' @ fence_open @ b @ fence_close @ p" by simp
      then show ?thesis by blast
    qed
  next
    assume "(\<exists>b p. c # cs = fence_open @ b @ fence_close @ p) \<or>
        (\<exists>a b p. cs = a @ fence_open @ b @ fence_close @ p)"
    then show "\<exists>a b p. c # cs = a @ fence_open @ b @ fence_close @ p"
    proof
      assume "\<exists>b p. c # cs = fence_open @ b @ fence_close @ p"
      then obtain b p where "c # cs = [] @ fence_open @ b @ fence_close @ p" by auto
      then show ?thesis by blast
    next
      assume "\<exists>a b p. cs = a @ fence_open @ b @ fence_close @ p"
      then obtain a b p where "cs = a @ fence_open @ b @ fence_close @ p" by blast
      then have "c # cs = (c # a) @ fence_open @ b @ fence_close @ p" by simp
      then show ?thesis by blast
    qed
  qed
  moreover have "re_search (c # cs) = None \<longleftrightarrow>
      match_here (c # cs) = None \<and> re_search cs = None"
    by (simp split: option.splits)
  ultimately show ?case
    using Cons.IH match_here_None[of "c # cs"] by blast
qed

lemma get_gemini_response_reply:
  assumes "generate_content w (build_prompt input_text) = Inr reply"
  shows "get_gemini_response w input_text =
     (case json_loads w (select_json_str reply) of
        Inr data \<Rightarrow> ([CallGenerateContent (build_prompt input_text)], data)
      | Inl e \<Rightarrow> ([CallGenerateContent (build_prompt input_text),
                   StError (''An error occurred: '' @ exc_str e)], JNull))"
  using assms
  by (simp add: get_gemini_response_def get_gemini_response_try_def Let_def emit_def
      py_call_def split: sum.splits)

subsection \<open>The response parser\<close>

text \<open>
  C1. A reply that consists of a fenced block with the \<open>json\<close> tag around a text \<open>body\<close>
  that decodes to \<open>J\<close>: the pattern matches, its group is exactly \<open>body\<close>, and
  \<open>get_gemini_response\<close> returns \<open>J\<close>, having reported no error.
\<close>

theorem fenced_reply_parsed:
  assumes "generate_content w (build_prompt input_text) = Inr (fence_open @ body @ fence_close)"
      and "json_loads w body = Inr J"
  shows "re_search (fence_open @ body @ fence_close) = Some body \<and>
         get_gemini_response w input_text = ([CallGenerateContent (build_prompt input_text)], J)"
  using assms
  by (simp add: get_gemini_response_reply select_json_str_def re_search_fenced)

theorem fenced_reply_parsed_witness:
  "re_search (fence_open @ ''{}'' @ fence_close) = Some ''{}'' \<and>
   get_gemini_response (sample_world (fence_open @ ''{}'' @ fence_close)) ''Lease'' =
     ([CallGenerateContent (build_prompt ''Lease'')], JObject [])"
  using fenced_reply_parsed
    [of "sample_world (fence_open @ ''{}'' @ fence_close)" "''Lease''" "''{}''" "JObject []"]
  by (simp add: sample_world_def sample_loads_def)

text \<open>
  C2. A reply that holds no fenced block (no opening marker followed later by a closing
  marker) and that decodes, as a whole, to \<open>J\<close>: the parser falls back to the whole
  reply and \<open>get_gemini_response\<close> returns \<open>J\<close>, having reported no error.
\<close>

theorem bare_reply_parsed:
  assumes "generate_content w (build_prompt input_text) = Inr reply"
      and "\<not> (\<exists>a b p. reply = a @ fence_open @ b @ fence_close @ p)"
      and "json_loads w reply = Inr J"
  shows "select_json_str reply = reply \<and>
         get_gemini_response w input_text = ([CallGenerateContent (build_prompt input_text)], J)"
proof -
  from assms(2) have "re_search reply = None" by (simp add: re_search_None)
  then have sel: "select_json_str reply = reply" by (simp add: select_json_str_def)
  with assms(1,3) show ?thesis by (simp add: get_gemini_response_reply)
qed

theorem bare_reply_parsed_witness:
  "select_json_str ''{\"Contract Type\": \"NDA\"}'' = ''{\"Contract Type\": \"NDA\"}'' \<and>
   get_gemini_response (sample_world ''{\"Contract Type\": \"NDA\"}'') ''Lease'' =
     ([CallGenerateContent (build_prompt ''Lease'')],
      JObject [(''Contract Type'', JString ''NDA'')])"
proof -
  have nofence:
    "\<not> (\<exists>a b p. ''{\"Contract Type\": \"NDA\"}'' = a @ fence_open @ b @ fence_close @ p)"
    unfolding re_search_None[symmetric] by (simp add: match_here_def fence_open_def)
  show ?thesis
    using bare_reply_parsed
      [of "sample_world ''{\"Contract Type\": \"NDA\"}''" "''Lease''"
          "''{\"Contract Type\": \"NDA\"}''" "JObject [(''Contract Type'', JString ''NDA'')]",
       OF _ nofence]
    by (simp add: sample_world_def sample_loads_def)
qed

text \<open>
  C3. When the selected payload (the fenced content if the pattern matches, the whole
  reply otherwise) does not decode, the exception is caught: one error message is shown
  and \<open>get_gemini_response\<close> returns \<open>None\<close>.
\<close>

theorem malformed_reply_handled:
  assumes "generate_content w (build_prompt input_text) = Inr reply"
      and "json_loads w (select_json_str reply) = Inl e"
  shows "get_gemini_response w input_text =
           ([CallGenerateContent (build_prompt input_text),
             StError (''An error occurred: '' @ exc_str e)], JNull)"
  using assms by (simp add: get_gemini_response_reply)

theorem malformed_reply_handled_witness:
  "get_gemini_response (sample_world (fence_open @ ''n/a'' @ fence_close)) ''Lease'' =
     ([CallGenerateContent (build_prompt ''Lease''),
       StError ''An error occurred: Expecting value: line 1 column 1 (char 0)''], JNull)"
proof -
  have sel: "select_json_str (fence_open @ ''n/a'' @ fence_close) = ''n/a''"
    by (simp only: select_json_str_def re_search_fenced option.case)
  have reply: "generate_content (sample_world (fence_open @ ''n/a'' @ fence_close))
                 (build_prompt ''Lease'') = Inr (fence_open @ ''n/a'' @ fence_close)"
    by (simp add: sample_world_def)
  have bad: "json_loads (sample_world (fence_open @ ''n/a'' @ fence_close))
               (select_json_str (fence_open @ ''n/a'' @ fence_close)) =
             Inl (PyException ''JSONDecodeError'' ''Expecting value: line 1 column 1 (char 0)'')"
    unfolding sel by (simp add: sample_world_def sample_loads_def)
  show ?thesis
    using malformed_reply_handled[OF reply bad] by simp
qed

subsection \<open>Text extraction\<close>

lemma pdf_pages_loop_concat:
  "map extract_text pages = map Inr rs \<Longrightarrow>
   pdf_pages_loop acc pages =
     Inr (acc @ concat (map (\<lambda>r. case r of None \<Rightarrow> [] | Some s \<Rightarrow> s) rs))"
proof (induction pages arbitrary: acc rs)
  case Nil
  then show ?case by simp
next
  case (Cons p pages)
  then obtain r rs' where rs: "rs = r # rs'" by (cases rs) auto
  with Cons.prems have p: "extract_text p = Inr r" and rest: "map extract_text pages = map Inr rs'"
    by simp_all
  have "py_or_empty r = (case r of None \<Rightarrow> [] | Some s \<Rightarrow> s)"
    by (simp add: py_or_empty_def split: option.splits)
  with Cons.IH[OF rest] p rs show ?case by simp
qed

lemma docx_paragraphs_loop_concat:
  "docx_paragraphs_loop acc ps = acc @ concat (map (\<lambda>p. paragraph_text p @ ''\<newline>'') ps)"
  by (induction ps arbitrary: acc) simp_all

lemma sample_decode_hi: "sample_decode [0x68, 0x69] = Inr ''hi''"
  by code_simp

lemma sample_decode_bad:
  "sample_decode [0x68, 0xFF] = Inl (PyException ''UnicodeDecodeError'' ''invalid utf-8'')"
  by (simp add: sample_decode_def)

text \<open>
  C6. When the reader yields the pages and page \<open>i\<close> yields \<open>r\<^sub>i\<close> (a string, or
  \<open>None\<close> for a page without extractable text), \<open>extract_text_from_pdf\<close> returns the
  strings in page order, one after the other, the empty string standing for \<open>None\<close>.
\<close>

theorem pdf_text_concatenated:
  assumes "PdfReader w file_obj = Inr pages"
      and "map extract_text pages = map Inr rs"
  shows "extract_text_from_pdf w file_obj =
           ([CallPdfReader file_obj],
            Inr (concat (map (\<lambda>r. case r of None \<Rightarrow> [] | Some s \<Rightarrow> s) rs)))"
  using assms
  by (simp add: extract_text_from_pdf_def emit_def py_call_def pdf_pages_loop_concat)

theorem pdf_text_concatenated_witness:
  "extract_text_from_pdf (sample_world []) [0x25, 0x50] =
     ([CallPdfReader [0x25, 0x50]], Inr ''Hello world'')"
  using pdf_text_concatenated
    [of "sample_world []" "[0x25, 0x50]"
        "[Page (Inr (Some ''Hello '')), Page (Inr None), Page (Inr (Some ''world''))]"
        "[Some ''Hello '', None, Some ''world'']"]
  by (simp add: sample_world_def)

text \<open>
  C7. When the document has the paragraphs \<open>ps\<close>, \<open>extract_text_from_docx\<close> returns
  the text of each paragraph followed by a newline, the last one included; with no
  paragraph it returns the empty string.
\<close>

theorem docx_text_concatenated:
  assumes "Document w file_obj = Inr ps"
  shows "extract_text_from_docx w file_obj =
           ([CallDocument file_obj],
            Inr (concat (map (\<lambda>p. paragraph_text p @ ''\<newline>'') ps))) \<and>
         (ps = [] \<longrightarrow> snd (extract_text_from_docx w file_obj) = Inr [])"
  using assms
  by (simp add: extract_text_from_docx_def emit_def py_call_def docx_paragraphs_loop_concat)

theorem docx_text_concatenated_witness:
  "extract_text_from_docx (sample_world []) [0x50, 0x4B] =
     ([CallDocument [0x50, 0x4B]], Inr ''First\<newline>Second\<newline>'')"
  using docx_text_concatenated
    [of "sample_world []" "[0x50, 0x4B]" "[Paragraph ''First'', Paragraph ''Second'']"]
  by (simp add: sample_world_def)

text \<open>
  C8. For a file declared \<open>text/plain\<close> whose bytes decode as UTF-8 to the text \<open>T\<close>,
  the extraction step returns exactly \<open>T\<close>: the decoder's result is passed on as it is.
\<close>

theorem plain_text_decoded:
  assumes "upload_type uploaded = ''text/plain''"
      and "decode_utf8 w file_content = Inr T"
  shows "extract_by_type w uploaded file_content =
           ([StInfo ''Reading text from TXT...'', CallDecode file_content], Inr T)"
  using assms by (simp add: extract_by_type_def emits_def py_call_def)

theorem plain_text_decoded_witness:
  "extract_by_type (sample_world [])
     \<lparr>upload_type = ''text/plain'', upload_size = 2, upload_value = [0x68, 0x69]\<rparr> [0x68, 0x69] =
     ([StInfo ''Reading text from TXT...'', CallDecode [0x68, 0x69]], Inr ''hi'')"
  using plain_text_decoded
    [of "\<lparr>upload_type = ''text/plain'', upload_size = 2, upload_value = [0x68, 0x69]\<rparr>"
        "sample_world []" "[0x68, 0x69]" "''hi''"]
  by (simp add: sample_world_def sample_decode_hi)

subsection \<open>The presenter\<close>

text \<open>On a dict no \<open>get\<close> raises: each statement of the presenter emits its event.\<close>

lemma headline_loop_dict:
  "headline_loop w (JObject kvs) bc =
     (concat (map (\<lambda>(key, color).
        [StMarkdown (label_box color key),
         StMarkdown (value_box color
            (py_str w (case map_of kvs key of Some v \<Rightarrow> v | None \<Rightarrow> JString ''N/A'')))]) bc),
      Inr ())"
  by (induction bc) (auto simp: py_call_def emits_def)

lemma narrative_dict:
  "narrative w (JObject kvs) key =
     ([StInfo (''**'' @ key @ '':** '' @
         py_str w (case map_of kvs key of Some v \<Rightarrow> v | None \<Rightarrow> JString ''N/A''))], Inr ())"
  by (simp add: narrative_def py_call_def emit_def)

lemma checkbox_dict:
  "checkbox label (JObject fs) key =
     ([StCheckbox label
         ((case map_of fs key of Some v \<Rightarrow> v | None \<Rightarrow> JString ''No'') = JString ''Yes'')],
      Inr ())"
  by (simp add: checkbox_def py_call_def emit_def)

lemma present_dict:
  assumes "py_get (JObject kvs) ''Clauses Presence'' (JObject []) = Inr (JObject cs)"
      and "py_get (JObject cs) ''Commercial'' (JObject []) = Inr (JObject com)"
      and "py_get (JObject cs) ''Legal'' (JObject []) = Inr (JObject leg)"
  shows "present w (JObject kvs) =
     ([StSuccess (''Analysis Complete! '' @ [CHR 0xF0, CHR 0x9F, CHR 0x8E, CHR 0x89]),
       StMarkdown custom_css, StHeader ''Key Contract Details''] @
      fst (headline_loop w (JObject kvs) box_colors) @
      [StMarkdown ''---'', StHeader ''Full Analysis'', StSubheader ''General Insights''] @
      concat (map (\<lambda>k. fst (narrative w (JObject kvs) k)) narrative_keys) @
      [StMarkdown ''---'',
       StSubheader (''Clause Presence Check '' @ [CHR 0xE2, CHR 0x9C, CHR 0x85]),
       StMarkdown ''##### Commercial Clauses''] @
      fst (checkbox ''Payment Terms'' (JObject com) ''Payment Terms'') @
      fst (checkbox ''IP (Intellectual Property)'' (JObject com) ''IP'') @
      fst (checkbox ''Delivery Time'' (JObject com) ''Delivery Time'') @
      fst (checkbox ''Warranty'' (JObject com) ''Warranty'') @
      [StMarkdown ''---'', StMarkdown ''##### Legal Clauses''] @
      fst (checkbox ''Indemnification'' (JObject leg) ''Indemnification'') @
      fst (checkbox ''Termination'' (JObject leg) ''Termination'') @
      fst (checkbox ''Confidentiality'' (JObject leg) ''Confidentiality'') @
      fst (checkbox ''Limitation of Liability'' (JObject leg) ''Limitation of Liability''),
      Inr ())"
  unfolding present_def
  by (simp add: assms headline_loop_dict narrative_dict checkbox_dict emit_def py_call_def
        narrative_keys_def del: py_get.simps)


text \<open>Whatever the clause part does, the headline and narrative events are on the page.\<close>

lemma present_head:
  "prefix
     ([StSuccess (''Analysis Complete! '' @ [CHR 0xF0, CHR 0x9F, CHR 0x8E, CHR 0x89]),
       StMarkdown custom_css, StHeader ''Key Contract Details''] @
      fst (headline_loop w (JObject kvs) box_colors) @
      [StMarkdown ''---'', StHeader ''Full Analysis'', StSubheader ''General Insights''] @
      concat (map (\<lambda>k. fst (narrative w (JObject kvs) k)) narrative_keys))
     (fst (present w (JObject kvs)))"
  unfolding present_def
  by (simp add: headline_loop_dict narrative_dict emit_def narrative_keys_def)

lemma headline_missing:
  assumes "(key, color) \<in> set bc" and "map_of kvs key = None"
  shows "StMarkdown (value_box color ''N/A'') \<in> set (fst (headline_loop w (JObject kvs) bc))"
  using assms by (force simp: headline_loop_dict)

lemma narrative_missing:
  assumes "map_of kvs key = None"
  shows "fst (narrative w (JObject kvs) key) = [StInfo (''**'' @ key @ '':** N/A'')]"
  using assms by (simp add: narrative_dict)

lemma nested_ok_dicts:
  assumes "nested_ok kvs"
  shows "\<exists>cs com leg.
    py_get (JObject kvs) ''Clauses Presence'' (JObject []) = Inr (JObject cs) \<and>
    py_get (JObject cs) ''Commercial'' (JObject []) = Inr (JObject com) \<and>
    py_get (JObject cs) ''Legal'' (JObject []) = Inr (JObject leg) \<and>
    (\<forall>key. flag_missing kvs ''Commercial'' key \<longrightarrow> map_of com key = None) \<and>
    (\<forall>key. flag_missing kvs ''Legal'' key \<longrightarrow> map_of leg key = None)"
proof (cases "map_of kvs ''Clauses Presence''")
  case None
  have "py_get (JObject kvs) ''Clauses Presence'' (JObject []) = Inr (JObject []) \<and>
    py_get (JObject []) ''Commercial'' (JObject []) = Inr (JObject []) \<and>
    py_get (JObject []) ''Legal'' (JObject []) = Inr (JObject []) \<and>
    (\<forall>key. flag_missing kvs ''Commercial'' key \<longrightarrow> map_of [] key = None) \<and>
    (\<forall>key. flag_missing kvs ''Legal'' key \<longrightarrow> map_of [] key = None)"
    by (simp add: None)
  then show ?thesis by blast
next
  case (Some c)
  with assms obtain cs where c: "c = JObject cs"
    and ok: "category_ok cs ''Commercial''" "category_ok cs ''Legal''"
    by (cases c) (auto simp: nested_ok_def)
  define com where "com = (case map_of cs ''Commercial'' of Some (JObject fs) \<Rightarrow> fs | _ \<Rightarrow> [])"
  define leg where "leg = (case map_of cs ''Legal'' of Some (JObject fs) \<Rightarrow> fs | _ \<Rightarrow> [])"
  have 1: "py_get (JObject cs) ''Commercial'' (JObject []) = Inr (JObject com)"
    using ok(1) by (auto simp: category_ok_def com_def split: option.splits json.splits)
  have 2: "py_get (JObject cs) ''Legal'' (JObject []) = Inr (JObject leg)"
    using ok(2) by (auto simp: category_ok_def leg_def split: option.splits json.splits)
  have 3: "flag_missing kvs ''Commercial'' key \<Longrightarrow> map_of com key = None" for key
    using ok(1) by (auto simp: flag_missing_def Some c com_def category_ok_def
        split: option.splits json.splits)
  have 4: "flag_missing kvs ''Legal'' key \<Longrightarrow> map_of leg key = None" for key
    using ok(2) by (auto simp: flag_missing_def Some c leg_def category_ok_def
        split: option.splits json.splits)
  have 0: "py_get (JObject kvs) ''Clauses Presence'' (JObject []) = Inr (JObject cs)"
    by (simp add: Some c)
  from 0 1 2 3 4 show ?thesis by blast
qed

lemma present_flags:
  assumes "nested_ok kvs"
  shows "snd (present w (JObject kvs)) = Inr ()"
    and "\<forall>(cat, key, label) \<in> set clause_flags. flag_missing kvs cat key \<longrightarrow>
           StCheckbox label False \<in> set (fst (present w (JObject kvs))) \<and>
           StCheckbox label True \<notin> set (fst (present w (JObject kvs)))"
proof -
  obtain cs com leg where g:
    "py_get (JObject kvs) ''Clauses Presence'' (JObject []) = Inr (JObject cs)"
    "py_get (JObject cs) ''Commercial'' (JObject []) = Inr (JObject com)"
    "py_get (JObject cs) ''Legal'' (JObject []) = Inr (JObject leg)"
    and c: "\<forall>key. flag_missing kvs ''Commercial'' key \<longrightarrow> map_of com key = None"
    and l: "\<forall>key. flag_missing kvs ''Legal'' key \<longrightarrow> map_of leg key = None"
    using nested_ok_dicts[OF assms] by blast
  note p = present_dict[OF g, of w]
  show "snd (present w (JObject kvs)) = Inr ()" by (simp add: p)
  have ev: "fst (present w (JObject kvs)) = 
      [StSuccess (''Analysis Complete! '' @ [CHR 0xF0, CHR 0x9F, CHR 0x8E, CHR 0x89]),
       StMarkdown custom_css, StHeader ''Key Contract Details''] @
      fst (headline_loop w (JObject kvs) box_colors) @
      [StMarkdown ''---'', StHeader ''Full Analysis'', StSubheader ''General Insights''] @
      concat (map (\<lambda>k. fst (narrative w (JObject kvs) k)) narrative_keys) @
      [StMarkdown ''---'',
       StSubheader (''Clause Presence Check '' @ [CHR 0xE2, CHR 0x9C, CHR 0x85]),
       StMarkdown ''##### Commercial Clauses''] @
      fst (checkbox ''Payment Terms'' (JObject com) ''Payment Terms'') @
      fst (checkbox ''IP (Intellectual Property)'' (JObject com) ''IP'') @
      fst (checkbox ''Delivery Time'' (JObject com) ''Delivery Time'') @
      fst (checkbox ''Warranty'' (JObject com) ''Warranty'') @
      [StMarkdown ''---'', StMarkdown ''##### Legal Clauses''] @
      fst (checkbox ''Indemnification'' (JObject leg) ''Indemnification'') @
      fst (checkbox ''Termination'' (JObject leg) ''Termination'') @
      fst (checkbox ''Confidentiality'' (JObject leg) ''Confidentiality'') @
      fst (checkbox ''Limitation of Liability'' (JObject leg) ''Limitation of Liability'')"
    by (simp add: p)
  have nohl: "StCheckbox lb b \<notin> set (fst (headline_loop w (JObject kvs) box_colors))" for lb b
    by (auto simp: headline_loop_dict)
  show "\<forall>(cat, key, label) \<in> set clause_flags. flag_missing kvs cat key \<longrightarrow>
           StCheckbox label False \<in> set (fst (present w (JObject kvs))) \<and>
           StCheckbox label True \<notin> set (fst (present w (JObject kvs)))"
    unfolding ev clause_flags_def
    using c l by (auto simp: checkbox_dict nohl narrative_dict)
qed


text \<open>
  C4. For an analysis result that is a dict: every headline field and every narrative
  field whose key is missing is shown as the literal \<open>N/A\<close>. When the nested entries that
  are present are mappings, the presenter raises nothing, and every clause flag that is
  missing (with "Clauses Presence" absent, or its category absent, or the key absent
  from the category) is shown as an unchecked checkbox and not as a checked one.
\<close>

theorem presenter_defaults:
  "(\<forall>(key, color_class) \<in> set box_colors. map_of kvs key = None \<longrightarrow>
      StMarkdown (value_box color_class ''N/A'') \<in> set (fst (present w (JObject kvs)))) \<and>
   (\<forall>key \<in> set narrative_keys. map_of kvs key = None \<longrightarrow>
      StInfo (''**'' @ key @ '':** N/A'') \<in> set (fst (present w (JObject kvs)))) \<and>
   (nested_ok kvs \<longrightarrow>
      snd (present w (JObject kvs)) = Inr () \<and>
      (\<forall>(cat, key, label) \<in> set clause_flags. flag_missing kvs cat key \<longrightarrow>
         StCheckbox label False \<in> set (fst (present w (JObject kvs))) \<and>
         StCheckbox label True \<notin> set (fst (present w (JObject kvs)))))"
proof (intro conjI impI)
  show "\<forall>(key, color_class) \<in> set box_colors. map_of kvs key = None \<longrightarrow>
      StMarkdown (value_box color_class ''N/A'') \<in> set (fst (present w (JObject kvs)))"
  proof (intro ballI, clarify)
    fix key color_class
    assume "(key, color_class) \<in> set box_colors" and "map_of kvs key = None"
    then have "StMarkdown (value_box color_class ''N/A'') \<in>
        set (fst (headline_loop w (JObject kvs) box_colors))"
      by (rule headline_missing)
    then show "StMarkdown (value_box color_class ''N/A'') \<in> set (fst (present w (JObject kvs)))"
      using set_mono_prefix[OF present_head[of w kvs]] by auto
  qed
next
  show "\<forall>key \<in> set narrative_keys. map_of kvs key = None \<longrightarrow>
      StInfo (''**'' @ key @ '':** N/A'') \<in> set (fst (present w (JObject kvs)))"
  proof (intro ballI impI)
    fix key
    assume "key \<in> set narrative_keys" and "map_of kvs key = None"
    then have "StInfo (''**'' @ key @ '':** N/A'') \<in>
        set (concat (map (\<lambda>k. fst (narrative w (JObject kvs) k)) narrative_keys))"
      using narrative_missing[of kvs key w] by force
    then show "StInfo (''**'' @ key @ '':** N/A'') \<in> set (fst (present w (JObject kvs)))"
      using set_mono_prefix[OF present_head[of w kvs]] by auto
  qed
next
  assume "nested_ok kvs"
  then show "snd (present w (JObject kvs)) = Inr ()"
    by (rule present_flags(1))
next
  assume "nested_ok kvs"
  then show "\<forall>(cat, key, label) \<in> set clause_flags. flag_missing kvs cat key \<longrightarrow>
         StCheckbox label False \<in> set (fst (present w (JObject kvs))) \<and>
         StCheckbox label True \<notin> set (fst (present w (JObject kvs)))"
    by (rule present_flags(2))
qed

theorem presenter_defaults_witness:
  "StMarkdown (value_box ''box-green'' ''N/A'') \<in> set (fst (present (sample_world [])
      (JObject [(''Clauses Presence'', JObject [(''Commercial'', JObject [(''IP'', JString ''Yes'')])])]))) \<and>
   StInfo ''**Executive Summary:** N/A'' \<in> set (fst (present (sample_world [])
      (JObject [(''Clauses Presence'', JObject [(''Commercial'', JObject [(''IP'', JString ''Yes'')])])]))) \<and>
   snd (present (sample_world [])
      (JObject [(''Clauses Presence'', JObject [(''Commercial'', JObject [(''IP'', JString ''Yes'')])])])) = Inr () \<and>
   StCheckbox ''Warranty'' False \<in> set (fst (present (sample_world [])
      (JObject [(''Clauses Presence'', JObject [(''Commercial'', JObject [(''IP'', JString ''Yes'')])])]))) \<and>
   StCheckbox ''Indemnification'' False \<in> set (fst (present (sample_world [])
      (JObject [(''Clauses Presence'', JObject [(''Commercial'', JObject [(''IP'', JString ''Yes'')])])])))"
  using presenter_defaults
    [of "[(''Clauses Presence'', JObject [(''Commercial'', JObject [(''IP'', JString ''Yes'')])])]"
        "sample_world []"]
  by (simp add: box_colors_def narrative_keys_def clause_flags_def nested_ok_def
      category_ok_def flag_missing_def)

subsection \<open>The button handler\<close>

text \<open>
  Extraction and the presenter put neither an error message nor a model call in the
  trace, whatever the libraries return.
\<close>

lemma events_all_mono:
  "events_all P m \<Longrightarrow> (\<And>ev. P ev \<Longrightarrow> Q ev) \<Longrightarrow> events_all Q m"
  by (auto simp: events_all_def list_all_iff)

lemma events_all_bind:
  "events_all P m \<Longrightarrow> (\<And>a. events_all P (f a)) \<Longrightarrow> events_all P (io_bind m f)"
  by (cases m; cases "snd m") (auto simp: events_all_def)

lemma events_all_then:
  "events_all P m \<Longrightarrow> events_all P n \<Longrightarrow> events_all P (io_then m n)"
  by (simp add: io_then_def events_all_bind)

lemma events_all_emit: "P ev \<Longrightarrow> events_all P (emit ev)"
  by (simp add: events_all_def emit_def)

lemma events_all_emits: "list_all P evs \<Longrightarrow> events_all P (emits evs)"
  by (simp add: events_all_def emits_def)

lemma events_all_py_call: "events_all P (py_call r)"
  by (simp add: events_all_def py_call_def)

lemma events_all_io_seq:
  "(\<And>m. m \<in> set ms \<Longrightarrow> events_all P m) \<Longrightarrow> events_all P (io_seq ms)"
proof (induction ms)
  case Nil
  show ?case by (simp add: events_all_def)
next
  case (Cons m ms)
  then show ?case by (simp add: events_all_then)
qed

lemma headline_loop_quiet:
  "events_all (\<lambda>ev. \<not> is_error ev \<and> \<not> is_model_call ev) (headline_loop w d bc)"
proof (induction bc)
  case Nil
  show ?case by (simp add: events_all_def)
next
  case (Cons kc bc)
  obtain key color where kc: "kc = (key, color)" by (cases kc)
  show ?case unfolding kc headline_loop.simps
    by (intro events_all_bind events_all_then events_all_py_call events_all_emits Cons.IH) simp
qed

lemma narrative_quiet:
  "events_all (\<lambda>ev. \<not> is_error ev \<and> \<not> is_model_call ev) (narrative w d key)"
  unfolding narrative_def
  by (intro events_all_bind events_all_py_call events_all_emit) simp

lemma checkbox_quiet:
  "events_all (\<lambda>ev. \<not> is_error ev \<and> \<not> is_model_call ev) (checkbox label d key)"
  unfolding checkbox_def
  by (intro events_all_bind events_all_py_call events_all_emit) simp

lemma present_quiet:
  "events_all (\<lambda>ev. \<not> is_error ev \<and> \<not> is_model_call ev) (present w d)"
  unfolding present_def
  by (intro events_all_bind events_all_then events_all_py_call events_all_io_seq)
     (auto intro!: events_all_emit headline_loop_quiet narrative_quiet checkbox_quiet)

lemma events_all_nil: "events_all P ([], r)"
  by (simp add: events_all_def)

lemma extract_text_from_pdf_quiet:
  "events_all (\<lambda>ev. \<not> is_error ev \<and> \<not> is_model_call ev) (extract_text_from_pdf w c)"
  unfolding extract_text_from_pdf_def
  by (intro events_all_then events_all_bind events_all_py_call events_all_emit) simp

lemma extract_text_from_docx_quiet:
  "events_all (\<lambda>ev. \<not> is_error ev \<and> \<not> is_model_call ev) (extract_text_from_docx w c)"
  unfolding extract_text_from_docx_def
  by (intro events_all_then events_all_bind events_all_py_call events_all_emit) simp

lemma extract_by_type_quiet:
  "events_all (\<lambda>ev. \<not> is_error ev \<and> \<not> is_model_call ev) (extract_by_type w uploaded c)"
proof -
  have plain: "events_all (\<lambda>ev. \<not> is_error ev \<and> \<not> is_model_call ev)
       (io_then (emits [StInfo ''Reading text from TXT...'', CallDecode c])
                (py_call (decode_utf8 w c)))"
    by (intro events_all_then events_all_py_call events_all_emits) simp
  have pdf: "events_all (\<lambda>ev. \<not> is_error ev \<and> \<not> is_model_call ev)
       (io_then (emit (StInfo ''Extracting text from PDF...'')) (extract_text_from_pdf w c))"
    by (intro events_all_then events_all_emit extract_text_from_pdf_quiet) simp
  have docx: "events_all (\<lambda>ev. \<not> is_error ev \<and> \<not> is_model_call ev)
       (io_then (emit (StInfo ''Extracting text from DOCX...'')) (extract_text_from_docx w c))"
    by (intro events_all_then events_all_emit extract_text_from_docx_quiet) simp
  show ?thesis
    unfolding extract_by_type_def
    using plain pdf docx by (simp only: events_all_nil split: if_split) simp
qed

lemma get_gemini_response_events:
  "list_all (\<lambda>ev. ev \<noteq> StError size_error) (fst (get_gemini_response w t))"
  by (cases "generate_content w (build_prompt t)")
     (auto simp: get_gemini_response_def get_gemini_response_try_def Let_def emit_def
        py_call_def size_error_def split: sum.splits)

lemma process_try_no_size_error:
  "events_all (\<lambda>ev. ev \<noteq> StError size_error) (process_try w uploaded c)"
proof -
  have quiet: "events_all (\<lambda>ev. ev \<noteq> StError size_error) m"
    if "events_all (\<lambda>ev. \<not> is_error ev \<and> \<not> is_model_call ev) m" for m :: "'a io"
    using that by (rule events_all_mono) auto
  have ggr: "events_all (\<lambda>ev. ev \<noteq> StError size_error)
      (case get_gemini_response w t of (evs, data) \<Rightarrow> (evs, Inr data))" for t
    using get_gemini_response_events[of w t]
    by (auto simp: events_all_def split: prod.splits)
  have fail1: "events_all (\<lambda>ev. ev \<noteq> StError size_error) (emit (StError analysis_failed_error))"
    by (intro events_all_emit) (simp add: size_error_def analysis_failed_error_def)
  have fail2: "events_all (\<lambda>ev. ev \<noteq> StError size_error) (emit (StError no_text_error))"
    by (intro events_all_emit) (simp add: size_error_def no_text_error_def)
  have spin: "events_all (\<lambda>ev. ev \<noteq> StError size_error) (emit (StSpinner s))" for s
    by (intro events_all_emit) simp
  show ?thesis
    unfolding process_try_def
    by (intro events_all_bind quiet[OF extract_by_type_quiet])
       (simp add: events_all_bind events_all_then spin ggr fail1 fail2 quiet[OF present_quiet])
qed


lemma io_bind_prefix: "prefix (fst m) (fst (io_bind m f))"
  by (cases m; cases "snd m") auto

lemma analyze_contract_small:
  assumes "upload_size uploaded \<le> 209715200"
  shows "analyze_contract w (Some uploaded) =
     (case process_try w uploaded (upload_value uploaded) of
        (evs, Inr u) \<Rightarrow> evs
      | (evs, Inl e) \<Rightarrow>
          evs @ [StError (''An error occurred during file processing: '' @ exc_str e)])"
  using assms unfolding analyze_contract_def
  by (auto split: prod.splits sum.splits)

text \<open>
  C5. A file of more than 200 MiB (209715200 bytes) is answered with the size error and
  nothing else: no extraction library and no model is called. A file at or below the
  ceiling is not answered with the size error, and the handler goes on to the extraction
  step, whose events open the trace.
\<close>

theorem size_ceiling:
  "(209715200 < upload_size uploaded \<longrightarrow>
      analyze_contract w (Some uploaded) = [StError size_error]) \<and>
   (upload_size uploaded \<le> 209715200 \<longrightarrow>
      StError size_error \<notin> set (analyze_contract w (Some uploaded)) \<and>
      prefix (fst (extract_by_type w uploaded (upload_value uploaded)))
             (analyze_contract w (Some uploaded)))"
proof (intro conjI impI)
  assume "209715200 < upload_size uploaded"
  then show "analyze_contract w (Some uploaded) = [StError size_error]"
    by (simp add: analyze_contract_def)
next
  assume small: "upload_size uploaded \<le> 209715200"
  obtain evs r where p: "process_try w uploaded (upload_value uploaded) = (evs, r)"
    by (cases "process_try w uploaded (upload_value uploaded)")
  have "list_all (\<lambda>ev. ev \<noteq> StError size_error) evs"
    using process_try_no_size_error[of w uploaded "upload_value uploaded"] p
    by (simp add: events_all_def)
  then have "StError size_error \<notin> set evs"
    by (auto simp: list_all_iff)
  then show "StError size_error \<notin> set (analyze_contract w (Some uploaded))"
    by (cases r) (simp_all add: analyze_contract_small[OF small] p size_error_def)
next
  assume small: "upload_size uploaded \<le> 209715200"
  obtain evs r where p: "process_try w uploaded (upload_value uploaded) = (evs, r)"
    by (cases "process_try w uploaded (upload_value uploaded)")
  have "prefix (fst (extract_by_type w uploaded (upload_value uploaded)))
               (fst (process_try w uploaded (upload_value uploaded)))"
    unfolding process_try_def by (rule io_bind_prefix)
  then have "prefix (fst (extract_by_type w uploaded (upload_value uploaded))) evs"
    by (simp add: p)
  then show "prefix (fst (extract_by_type w uploaded (upload_value uploaded)))
             (analyze_contract w (Some uploaded))"
    by (cases r) (simp_all add: analyze_contract_small[OF small] p)
qed

theorem size_ceiling_witness:
  "analyze_contract (sample_world [])
     (Some \<lparr>upload_type = ''text/plain'', upload_size = 209715201, upload_value = [0x68, 0x69]\<rparr>) =
     [StError size_error] \<and>
   StError size_error \<notin> set (analyze_contract (sample_world [])
     (Some \<lparr>upload_type = ''text/plain'', upload_size = 209715200, upload_value = [0x68, 0x69]\<rparr>))"
  using size_ceiling
      [of "\<lparr>upload_type = ''text/plain'', upload_size = 209715201, upload_value = [0x68, 0x69]\<rparr>"
          "sample_world []"]
    size_ceiling
      [of "\<lparr>upload_type = ''text/plain'', upload_size = 209715200, upload_value = [0x68, 0x69]\<rparr>"
          "sample_world []"]
  by simp

text \<open>
  C9. When the extraction step raises, for a file within the size ceiling, the handler
  shows what extraction had put on the page and then one error message with the text of
  the exception; the model is not called. A \<open>text/plain\<close> file whose bytes the UTF-8
  decoder rejects is such a case.
\<close>

theorem extraction_failure_handled:
  assumes "upload_size uploaded \<le> 209715200"
  shows "(\<forall>evs e. extract_by_type w uploaded (upload_value uploaded) = (evs, Inl e) \<longrightarrow>
            analyze_contract w (Some uploaded) =
              evs @ [StError (''An error occurred during file processing: '' @ exc_str e)] \<and>
            (\<forall>p. CallGenerateContent p \<notin> set (analyze_contract w (Some uploaded)))) \<and>
         (\<forall>e. upload_type uploaded = ''text/plain'' \<and>
              decode_utf8 w (upload_value uploaded) = Inl e \<longrightarrow>
            analyze_contract w (Some uploaded) =
              [StInfo ''Reading text from TXT...'', CallDecode (upload_value uploaded),
               StError (''An error occurred during file processing: '' @ exc_str e)])"
proof (intro conjI allI impI)
  fix evs e
  assume ex: "extract_by_type w uploaded (upload_value uploaded) = (evs, Inl e)"
  show a: "analyze_contract w (Some uploaded) =
              evs @ [StError (''An error occurred during file processing: '' @ exc_str e)]"
    by (simp add: analyze_contract_small[OF assms] process_try_def ex)
  have "list_all (\<lambda>ev. \<not> is_error ev \<and> \<not> is_model_call ev) evs"
    using extract_by_type_quiet[of w uploaded "upload_value uploaded"] ex
    by (simp add: events_all_def)
  then have "CallGenerateContent p \<notin> set evs" for p
    by (auto simp: list_all_iff)
  then show "CallGenerateContent p \<notin> set (analyze_contract w (Some uploaded))" for p
    by (simp add: a)
next
  fix e
  assume "upload_type uploaded = ''text/plain'' \<and> decode_utf8 w (upload_value uploaded) = Inl e"
  then have "extract_by_type w uploaded (upload_value uploaded) =
      ([StInfo ''Reading text from TXT...'', CallDecode (upload_value uploaded)], Inl e)"
    by (simp add: extract_by_type_def emits_def py_call_def)
  then show "analyze_contract w (Some uploaded) =
              [StInfo ''Reading text from TXT...'', CallDecode (upload_value uploaded),
               StError (''An error occurred during file processing: '' @ exc_str e)]"
    by (simp add: analyze_contract_small[OF assms] process_try_def)
qed

theorem extraction_failure_handled_witness:
  "analyze_contract (sample_world [])
     (Some \<lparr>upload_type = ''text/plain'', upload_size = 2, upload_value = [0x68, 0xFF]\<rparr>) =
     [StInfo ''Reading text from TXT...'', CallDecode [0x68, 0xFF],
      StError ''An error occurred during file processing: invalid utf-8''] \<and>
   (\<forall>p. CallGenerateContent p \<notin> set (analyze_contract (sample_world [])
     (Some \<lparr>upload_type = ''text/plain'', upload_size = 2, upload_value = [0x68, 0xFF]\<rparr>)))"
proof -
  let ?f = "\<lparr>upload_type = ''text/plain'', upload_size = 2, upload_value = [0x68, 0xFF]\<rparr>"
  have size: "upload_size ?f \<le> 209715200" by simp
  have ex: "extract_by_type (sample_world []) ?f (upload_value ?f) =
      ([StInfo ''Reading text from TXT...'', CallDecode [0x68, 0xFF]],
       Inl (PyException ''UnicodeDecodeError'' ''invalid utf-8''))"
    by (simp add: extract_by_type_def emits_def py_call_def sample_world_def sample_decode_bad)
  from extraction_failure_handled[OF size, of "sample_world []"] ex
  have "analyze_contract (sample_world []) (Some ?f) =
          [StInfo ''Reading text from TXT...'', CallDecode [0x68, 0xFF]] @
          [StError (''An error occurred during file processing: '' @
                    exc_str (PyException ''UnicodeDecodeError'' ''invalid utf-8''))] \<and>
        (\<forall>p. CallGenerateContent p \<notin> set (analyze_contract (sample_world []) (Some ?f)))"
    by blast
  then show ?thesis by simp
qed

text \<open>
  C10. When the text was extracted and the reply decodes to a value that Python takes
  for false (the empty dict, the empty list and \<open>None\<close> among them), the handler shows
  the "Could not analyze the contract" error after the model call and renders nothing
  of the result.
\<close>

theorem falsy_result_rejected:
  assumes "upload_size uploaded \<le> 209715200"
      and "extract_by_type w uploaded (upload_value uploaded) = (evs, Inr contract_text)"
      and "contract_text \<noteq> []"
      and "generate_content w (build_prompt contract_text) = Inr reply"
      and "json_loads w (select_json_str reply) = Inr J"
      and "\<not> truthy J"
  shows "analyze_contract w (Some uploaded) =
           evs @ [StSpinner (''Analyzing contract... Please wait.'' @
                             [CHR 0xE2, CHR 0x8F, CHR 0xB3]),
                  CallGenerateContent (build_prompt contract_text),
                  StError analysis_failed_error] \<and>
         \<not> truthy (JObject []) \<and> \<not> truthy (JArray []) \<and> \<not> truthy JNull"
  using assms
  by (simp add: analyze_contract_small process_try_def get_gemini_response_reply emit_def)

theorem falsy_result_rejected_witness:
  "analyze_contract (sample_world ''{}'')
     (Some \<lparr>upload_type = ''text/plain'', upload_size = 2, upload_value = [0x68, 0x69]\<rparr>) =
     [StInfo ''Reading text from TXT...'', CallDecode [0x68, 0x69],
      StSpinner (''Analyzing contract... Please wait.'' @ [CHR 0xE2, CHR 0x8F, CHR 0xB3]),
      CallGenerateContent (build_prompt ''hi''),
      StError analysis_failed_error]"
proof -
  have size: "upload_size \<lparr>upload_type = ''text/plain'', upload_size = 2,
                            upload_value = [0x68, 0x69]\<rparr> \<le> 209715200"
    by simp
  have ex: "extract_by_type (sample_world ''{}'')
       \<lparr>upload_type = ''text/plain'', upload_size = 2, upload_value = [0x68, 0x69]\<rparr>
       (upload_value \<lparr>upload_type = ''text/plain'', upload_size = 2, upload_value = [0x68, 0x69]\<rparr>) =
     ([StInfo ''Reading text from TXT...'', CallDecode [0x68, 0x69]], Inr ''hi'')"
    by (simp add: extract_by_type_def emits_def py_call_def sample_world_def sample_decode_hi)
  have ne: "''hi'' \<noteq> []" by simp
  have reply: "generate_content (sample_world ''{}'') (build_prompt ''hi'') = Inr ''{}''"
    by (simp add: sample_world_def)
  have sel: "select_json_str ''{}'' = ''{}''"
    by (simp add: select_json_str_def match_here_def fence_open_def)
  have dec: "json_loads (sample_world ''{}'') (select_json_str ''{}'') = Inr (JObject [])"
    unfolding sel by (simp add: sample_world_def sample_loads_def)
  have falsy: "\<not> truthy (JObject [])" by simp
  show ?thesis
    using falsy_result_rejected[OF size ex ne reply dec falsy] by simp
qed


end
